theory Spec2Isabelle
  imports Complex_Main
begin

section \<open>The follow-me example: data\<close>

text \<open>
  The program is \<^verbatim>\<open>example/follow_me/follow_me.cpp\<close>: one \<^verbatim>\<open>main\<close> and three
  error-exit helpers. Everything \<^verbatim>\<open>main\<close> talks to (the \<^verbatim>\<open>DroneCore\<close> library, the
  location provider, the event loop) is outside the file, so the model takes the
  answers of those collaborators as a parameter, the \<open>world\<close>, and records every
  interaction of the program with them in a trace.

  The three result enumerations are declared in \<^verbatim>\<open>dronecore.h\<close>; the program only
  ever compares a result with \<^verbatim>\<open>SUCCESS\<close> and hands it to the matching
  \<^verbatim>\<open>result_str\<close>. Every enumerator other than \<^verbatim>\<open>SUCCESS\<close> is kept by its number.
\<close>

datatype connection_result = ConnectionResult_SUCCESS | ConnectionResult_other nat

datatype action_result = Action_SUCCESS | Action_other nat

datatype follow_me_result = FollowMe_SUCCESS | FollowMe_other nat

datatype flight_mode = FlightMode nat

text \<open>
  \<^verbatim>\<open>FollowMe::TargetLocation\<close>: the aggregate \<^verbatim>\<open>{lat, lon, 0.0, 0.f, 0.f, 0.f}\<close> of
  line 76 fills six fields in order. The first two names are those of lines 59 and
  60; the structure is declared in the library, and the other four fields are
  named as the spec names them (an altitude and three velocities). The program
  does no arithmetic on the coordinates: it passes them on as it got them, so
  they are modelled as reals, and the literals \<^verbatim>\<open>0.0\<close> and \<^verbatim>\<open>0.f\<close> as \<open>0\<close>.
\<close>

record target_location =
  latitude_deg :: real
  longitude_deg :: real
  altitude_m :: real
  velocity_north :: real
  velocity_east :: real
  velocity_down :: real

text \<open>
  What the program does that can be seen from outside, one event per call or
  output statement. A call that returns a value carries the value it returned:
  the calls of the program are synchronous, the event stands for the call and
  its return together. \<^verbatim>\<open>set_target_location\<close> is the exception: the program
  reads no result of it, and its return is an event of its own, so that a call
  in flight can be told from one that has returned. \<open>SleepFor n\<close> is \<^verbatim>\<open>sleep_for(seconds(n))\<close>. \<open>Cout\<close> and \<open>Cerr\<close>
  carry the text of one output statement; \<open>CoutFlightMode\<close> is the line of
  lines 58 to 60, with the flight mode as text and the two coordinates as the
  numbers they are (how a \<^verbatim>\<open>double\<close> is printed is not modelled).
\<close>

datatype event =
    AddUdpConnection connection_result
  | IsConnected bool
  | HealthAllOk bool
  | Arm action_result
  | FlightModeAsync
  | Takeoff action_result
  | FollowMeStart follow_me_result
  | NewFakeLocationProvider
  | RequestLocationUpdates
  | IoRun
  | IoRunReturn
  | SetTargetLocation target_location
  | SetTargetLocationReturn
  | GetLastLocation target_location
  | FollowMeStop follow_me_result
  | Land action_result
  | SleepFor nat
  | Cout string
  | CoutFlightMode string real real
  | Cerr string

text \<open>
  The places where the main thread waits, from \<^verbatim>\<open>arm()\<close> on: in a command, in a
  sleep, and in the event loop before its \<open>k\<close>-th round. The library reports
  flight modes to a registered callback whenever it gets one from the vehicle,
  whatever the main thread is doing; the model places the calls of the callback
  that fall into a wait at the end of that wait.
\<close>

datatype wait_point =
    DuringArm
  | DuringTakeoff
  | DuringSettle
  | DuringStart
  | DuringIoRun nat
  | DuringStop
  | DuringLand
  | DuringFinalSleep

text \<open>
  The collaborators' answers. \<open>is_connected_reply k\<close> is the answer of the
  \<open>k\<close>-th call of \<^verbatim>\<open>dc.is_connected()\<close> (from 0), likewise for the health check.
  \<open>location_updates k\<close> are the latitude and longitude of the \<open>k\<close>-th call of the
  callback by the location provider, \<open>None\<close> when the provider has stopped and
  the event loop has no work left (the provider, \<^verbatim>\<open>fake_location_provider.h\<close>,
  is not part of the source: what it does is a parameter). \<open>flight_mode_updates p\<close> are the flight modes the telemetry reports while
  the main thread waits at \<open>p\<close>. The \<^verbatim>\<open>result_str\<close> functions and the follow-me
  plugin's location before any was set belong to the library.
\<close>

record world =
  add_udp_connection_reply :: connection_result
  is_connected_reply :: "nat \<Rightarrow> bool"
  health_all_ok_reply :: "nat \<Rightarrow> bool"
  arm_reply :: action_result
  takeoff_reply :: action_result
  follow_me_start_reply :: follow_me_result
  location_updates :: "nat \<Rightarrow> (real \<times> real) option"
  follow_me_stop_reply :: follow_me_result
  land_reply :: action_result
  flight_mode_updates :: "wait_point \<Rightarrow> flight_mode list"
  connection_result_str :: "connection_result \<Rightarrow> string"
  action_result_str :: "action_result \<Rightarrow> string"
  follow_me_result_str :: "follow_me_result \<Rightarrow> string"
  flight_mode_str :: "flight_mode \<Rightarrow> string"
  initial_last_location :: target_location

text \<open>
  The state of the process: the trace so far, the location the follow-me plugin
  holds (what \<^verbatim>\<open>get_last_location\<close> returns), whether the flight-mode callback
  of lines 55 to 61 is registered, and the number of \<^verbatim>\<open>FakeLocationProvider\<close>
  objects made by \<^verbatim>\<open>new\<close> and not deleted.
\<close>

record state =
  trace :: "event list"
  follow_me_last_location :: target_location
  flight_mode_subscribed :: bool
  location_providers :: nat

text \<open>
  How a run of the model stops: the process exits with a status, or the fuel
  that bounds the loops is used up while a loop is still running.
\<close>

datatype halt = Exit int | OutOfFuel

section \<open>The program\<close>

text \<open>
  Modelled from the spec: \<^verbatim>\<open>EXIT_FAILURE\<close> is a macro of the C library and is not in
  the source. The spec has the process exit with a non-zero status when a
  command fails; the macro is 1 on the platforms the library builds on.
\<close>

definition EXIT_FAILURE :: int where
  "EXIT_FAILURE = 1"

definition ERROR_CONSOLE_TEXT :: string where
  "ERROR_CONSOLE_TEXT = CHR 0x1B # ''[31m''"

definition TELEMETRY_CONSOLE_TEXT :: string where
  "TELEMETRY_CONSOLE_TEXT = CHR 0x1B # ''[34m''"

definition NORMAL_CONSOLE_TEXT :: string where
  "NORMAL_CONSOLE_TEXT = CHR 0x1B # ''[0m''"

definition endl :: string where
  "endl = [CHR 0x0A]"

definition emit :: "event list \<Rightarrow> state \<Rightarrow> state" where
  "emit es s = s\<lparr>trace := trace s @ es\<rparr>"

definition init :: "world \<Rightarrow> state" where
  "init w = \<lparr>trace = [], follow_me_last_location = initial_last_location w,
     flight_mode_subscribed = False, location_providers = 0\<rparr>"

text \<open>Lines 95 to 102.\<close>

definition action_error_exit ::
  "world \<Rightarrow> action_result \<Rightarrow> string \<Rightarrow> state \<Rightarrow> (halt \<times> state) + state" where
  "action_error_exit w result message s =
     (if result \<noteq> Action_SUCCESS then
        Inl (Exit EXIT_FAILURE,
          emit [Cerr (ERROR_CONSOLE_TEXT @ message @ action_result_str w result
                      @ NORMAL_CONSOLE_TEXT @ endl)] s)
      else Inr s)"

text \<open>Lines 104 to 111.\<close>

definition follow_me_error_exit ::
  "world \<Rightarrow> follow_me_result \<Rightarrow> string \<Rightarrow> state \<Rightarrow> (halt \<times> state) + state" where
  "follow_me_error_exit w result message s =
     (if result \<noteq> FollowMe_SUCCESS then
        Inl (Exit EXIT_FAILURE,
          emit [Cerr (ERROR_CONSOLE_TEXT @ message @ follow_me_result_str w result
                      @ NORMAL_CONSOLE_TEXT @ endl)] s)
      else Inr s)"

text \<open>Lines 113 to 121.\<close>

definition connection_error_exit ::
  "world \<Rightarrow> connection_result \<Rightarrow> string \<Rightarrow> state \<Rightarrow> (halt \<times> state) + state" where
  "connection_error_exit w result message s =
     (if result \<noteq> ConnectionResult_SUCCESS then
        Inl (Exit EXIT_FAILURE,
          emit [Cerr (ERROR_CONSOLE_TEXT @ message @ connection_result_str w result
                      @ NORMAL_CONSOLE_TEXT @ endl)] s)
      else Inr s)"

text \<open>The loop of lines 36 to 39; \<open>k\<close> counts the calls of \<^verbatim>\<open>is_connected\<close> so far.\<close>

fun wait_connected :: "world \<Rightarrow> nat \<Rightarrow> nat \<Rightarrow> state \<Rightarrow> (halt \<times> state) + state" where
  "wait_connected w k 0 s = Inl (OutOfFuel, s)"
| "wait_connected w k (Suc fuel) s =
     (if is_connected_reply w k then Inr (emit [IsConnected True] s)
      else wait_connected w (Suc k) fuel
             (emit [IsConnected False,
                    Cout (''Wait for device to connect via heartbeat'' @ endl),
                    SleepFor 1] s))"

text \<open>The loop of lines 43 to 46.\<close>

fun wait_health_all_ok :: "world \<Rightarrow> nat \<Rightarrow> nat \<Rightarrow> state \<Rightarrow> (halt \<times> state) + state" where
  "wait_health_all_ok w k 0 s = Inl (OutOfFuel, s)"
| "wait_health_all_ok w k (Suc fuel) s =
     (if health_all_ok_reply w k then Inr (emit [HealthAllOk True] s)
      else wait_health_all_ok w (Suc k) fuel
             (emit [HealthAllOk False,
                    Cout (''Waiting for device to be ready'' @ endl),
                    SleepFor 1] s))"

text \<open>The callback of lines 56 to 61.\<close>

definition flight_mode_callback :: "world \<Rightarrow> flight_mode \<Rightarrow> state \<Rightarrow> state" where
  "flight_mode_callback w mode s =
     (let last_location = follow_me_last_location s in
      emit [GetLastLocation last_location,
            CoutFlightMode (flight_mode_str w mode)
              (latitude_deg last_location) (longitude_deg last_location)] s)"

text \<open>
  The telemetry reporting flight modes while the main thread waits at \<open>p\<close>:
  the callback runs once per update, if it has been registered.
\<close>

definition telemetry_updates :: "world \<Rightarrow> wait_point \<Rightarrow> state \<Rightarrow> state" where
  "telemetry_updates w p s =
     (if flight_mode_subscribed s
      then fold (flight_mode_callback w) (flight_mode_updates w p) s
      else s)"

definition set_target_location :: "target_location \<Rightarrow> state \<Rightarrow> state" where
  "set_target_location loc s =
     (let s = emit [SetTargetLocation loc] s;
          s = s\<lparr>follow_me_last_location := loc\<rparr>
      in emit [SetTargetLocationReturn] s)"

text \<open>The callback of lines 75 to 77.\<close>

definition location_callback :: "real \<Rightarrow> real \<Rightarrow> state \<Rightarrow> state" where
  "location_callback lat lon s =
     set_target_location
       \<lparr>latitude_deg = lat, longitude_deg = lon, altitude_m = 0,
        velocity_north = 0, velocity_east = 0, velocity_down = 0\<rparr> s"

text \<open>
  \<^verbatim>\<open>io.run()\<close>, line 78, with its comment \<^verbatim>\<open>will run as long as location updates
  continue to happen\<close>: the loop runs on the main thread, one handler at a time. Each
  round is one call of the callback of lines 75 to 77 by the provider; the loop
  returns when the provider has no more work. \<open>k\<close> counts the samples delivered
  so far. A provider that never stops keeps the loop running for ever: the
  fuel runs out.
\<close>

fun io_run :: "world \<Rightarrow> nat \<Rightarrow> nat \<Rightarrow> state \<Rightarrow> (halt \<times> state) + state" where
  "io_run w k 0 s = Inl (OutOfFuel, s)"
| "io_run w k (Suc fuel) s =
     (let s = telemetry_updates w (DuringIoRun k) s in
      case location_updates w k of
        None \<Rightarrow> Inr s
      | Some (lat, lon) \<Rightarrow> io_run w (Suc k) fuel (location_callback lat lon s))"

text \<open>
  \<^verbatim>\<open>main\<close>, lines 28 to 92. \<open>fuel\<close> bounds the number of rounds of each of the
  three loops (the two polls and the event loop). A run stops with \<open>Exit 0\<close> at
  the \<^verbatim>\<open>return 0\<close> of line 91, with \<open>Exit EXIT_FAILURE\<close> in one of the error exits,
  or with \<open>OutOfFuel\<close> in a loop. The flight modes reported while a command or a
  sleep lasts reach the callback before the next statement of \<^verbatim>\<open>main\<close> runs.
\<close>

definition main :: "nat \<Rightarrow> world \<Rightarrow> halt \<times> state" where
  "main fuel w =
     (let s = init w;
          conn_result = add_udp_connection_reply w;
          s = emit [AddUdpConnection conn_result] s
      in (case connection_error_exit w conn_result ''Connection failed'' s of
        Inl stop \<Rightarrow> stop
      | Inr s \<Rightarrow>
      (case wait_connected w 0 fuel s of
        Inl stop \<Rightarrow> stop
      | Inr s \<Rightarrow>
      (case wait_health_all_ok w 0 fuel s of
        Inl stop \<Rightarrow> stop
      | Inr s \<Rightarrow>
      (let s = emit [Cout (''Device is ready'' @ endl)] s;
           arm_result = arm_reply w;
           s = telemetry_updates w DuringArm (emit [Arm arm_result] s)
       in (case action_error_exit w arm_result ''Arming failed'' s of
        Inl stop \<Rightarrow> stop
      | Inr s \<Rightarrow>
      (let s = emit [Cout (''Armed'' @ endl)] s;
           s = emit [FlightModeAsync] (s\<lparr>flight_mode_subscribed := True\<rparr>);
           takeoff_result = takeoff_reply w;
           s = telemetry_updates w DuringTakeoff (emit [Takeoff takeoff_result] s)
       in (case action_error_exit w takeoff_result ''Takeoff failed'' s of
        Inl stop \<Rightarrow> stop
      | Inr s \<Rightarrow>
      (let s = emit [Cout (''In Air...'' @ endl)] s;
           s = telemetry_updates w DuringSettle (emit [SleepFor 5] s);
           follow_me_result = follow_me_start_reply w;
           s = telemetry_updates w DuringStart (emit [FollowMeStart follow_me_result] s)
       in (case follow_me_error_exit w follow_me_result ''Failed to start FollowMe mode'' s of
        Inl stop \<Rightarrow> stop
      | Inr s \<Rightarrow>
      (let s = emit [NewFakeLocationProvider]
                 (s\<lparr>location_providers := Suc (location_providers s)\<rparr>);
           s = emit [RequestLocationUpdates] s
       in (case io_run w 0 fuel (emit [IoRun] s) of
        Inl stop \<Rightarrow> stop
      | Inr s \<Rightarrow>
      (let s = emit [IoRunReturn] s;
           follow_me_result = follow_me_stop_reply w;
           s = telemetry_updates w DuringStop (emit [FollowMeStop follow_me_result] s)
       in (case follow_me_error_exit w follow_me_result ''Failed to stop FollowMe mode'' s of
        Inl stop \<Rightarrow> stop
      | Inr s \<Rightarrow>
      (let land_result = land_reply w;
           s = telemetry_updates w DuringLand (emit [Land land_result] s)
       in (case action_error_exit w land_result ''Landing failed'' s of
        Inl stop \<Rightarrow> stop
      | Inr s \<Rightarrow>
      (let s = telemetry_updates w DuringFinalSleep (emit [SleepFor 5] s);
           s = emit [Cout (''Finished...'' @ endl)] s
       in (Exit 0, s))))))))))))))))))"

section \<open>Reading a trace\<close>

text \<open>
  The commands the program sends to the vehicle: the connection set-up, the
  five commands of the mission and the target locations. Polls of a predicate,
  \<^verbatim>\<open>get_last_location\<close> and the registration of a callback are not commands.
\<close>

fun is_command :: "event \<Rightarrow> bool" where
  "is_command (AddUdpConnection r) = True"
| "is_command (Arm r) = True"
| "is_command (Takeoff r) = True"
| "is_command (FollowMeStart r) = True"
| "is_command (SetTargetLocation loc) = True"
| "is_command (FollowMeStop r) = True"
| "is_command (Land r) = True"
| "is_command e = False"

definition vehicle_commands :: "event list \<Rightarrow> event list" where
  "vehicle_commands tr = filter is_command tr"

text \<open>The five commands that move the mission from one phase to the next.\<close>

fun is_phase_command :: "event \<Rightarrow> bool" where
  "is_phase_command (Arm r) = True"
| "is_phase_command (Takeoff r) = True"
| "is_phase_command (FollowMeStart r) = True"
| "is_phase_command (FollowMeStop r) = True"
| "is_phase_command (Land r) = True"
| "is_phase_command e = False"

definition phase_commands :: "event list \<Rightarrow> event list" where
  "phase_commands tr = filter is_phase_command tr"

text \<open>The target locations handed to \<^verbatim>\<open>set_target_location\<close>, in the order of the calls.\<close>

fun forwarded :: "event list \<Rightarrow> target_location list" where
  "forwarded [] = []"
| "forwarded (SetTargetLocation loc # es) = loc # forwarded es"
| "forwarded (e # es) = forwarded es"

text \<open>Everything written to \<^verbatim>\<open>std::cerr\<close>.\<close>

fun stderr_of :: "event list \<Rightarrow> string" where
  "stderr_of [] = []"
| "stderr_of (Cerr x # es) = x @ stderr_of es"
| "stderr_of (e # es) = stderr_of es"

text \<open>
  The samples the provider hands out from its \<open>k\<close>-th on: at most \<open>n\<close> of them,
  and none after it has stopped.
\<close>

fun delivered :: "world \<Rightarrow> nat \<Rightarrow> nat \<Rightarrow> (real \<times> real) list" where
  "delivered w k 0 = []"
| "delivered w k (Suc n) =
     (case location_updates w k of
        None \<Rightarrow> []
      | Some sample \<Rightarrow> sample # delivered w (Suc k) n)"

text \<open>What one sample becomes at line 76.\<close>

definition target_of :: "real \<times> real \<Rightarrow> target_location" where
  "target_of sample =
     \<lparr>latitude_deg = fst sample, longitude_deg = snd sample, altitude_m = 0,
      velocity_north = 0, velocity_east = 0, velocity_down = 0\<rparr>"

text \<open>The events of \<open>n\<close> unsuccessful rounds of each poll.\<close>

definition connect_polls :: "nat \<Rightarrow> event list" where
  "connect_polls n =
     concat (replicate n [IsConnected False,
       Cout (''Wait for device to connect via heartbeat'' @ endl), SleepFor 1])"

definition health_polls :: "nat \<Rightarrow> event list" where
  "health_polls n =
     concat (replicate n [HealthAllOk False,
       Cout (''Waiting for device to be ready'' @ endl), SleepFor 1])"

text \<open>
  Enough fuel for the polls and for the event loop: the vehicle reports
  connected, and healthy, within \<open>fuel\<close> calls; the provider stops within
  \<open>fuel\<close> samples.
\<close>

definition ready_within :: "nat \<Rightarrow> world \<Rightarrow> bool" where
  "ready_within fuel w \<longleftrightarrow>
     (\<exists>k\<in>{..<fuel}. is_connected_reply w k) \<and> (\<exists>k\<in>{..<fuel}. health_all_ok_reply w k)"

definition feed_ends_within :: "nat \<Rightarrow> world \<Rightarrow> bool" where
  "feed_ends_within fuel w \<longleftrightarrow> (\<exists>k\<in>{..<fuel}. location_updates w k = None)"

text \<open>
  The run gets as far as the event loop: the connection is set up, the vehicle
  is ready within the fuel, and arming, take-off and the start of follow-me
  succeed.
\<close>

definition reaches_following :: "nat \<Rightarrow> world \<Rightarrow> bool" where
  "reaches_following fuel w \<longleftrightarrow>
     add_udp_connection_reply w = ConnectionResult_SUCCESS \<and> ready_within fuel w
     \<and> arm_reply w = Action_SUCCESS \<and> takeoff_reply w = Action_SUCCESS
     \<and> follow_me_start_reply w = FollowMe_SUCCESS"

text \<open>The text an error exit writes for a message and a reason.\<close>

definition diagnostic :: "string \<Rightarrow> string \<Rightarrow> string" where
  "diagnostic message reason =
     ERROR_CONSOLE_TEXT @ message @ reason @ NORMAL_CONSOLE_TEXT @ endl"

text \<open>
  An aborted run: the process has exited with \<^verbatim>\<open>EXIT_FAILURE\<close>, which is not 0,
  the commands sent are \<open>commands\<close> and no other, and what was written to
  \<^verbatim>\<open>std::cerr\<close> is the diagnostic of \<open>message\<close> and \<open>reason\<close>.
\<close>

definition aborted :: "halt \<times> state \<Rightarrow> event list \<Rightarrow> string \<Rightarrow> string \<Rightarrow> bool" where
  "aborted run commands message reason \<longleftrightarrow>
     fst run = Exit EXIT_FAILURE \<and> EXIT_FAILURE \<noteq> 0
     \<and> vehicle_commands (trace (snd run)) = commands
     \<and> stderr_of (trace (snd run)) = diagnostic message reason"

subsection \<open>Worlds to run the program in\<close>

text \<open>
  A world where everything goes well: the vehicle is connected at the second
  poll and healthy at the third, every command succeeds, the provider hands out
  two samples and stops, and the telemetry reports one flight mode at every
  wait. A result other than \<^verbatim>\<open>SUCCESS\<close> reads \<open>''reason''\<close>.
\<close>

definition nominal_world :: world where
  "nominal_world =
     \<lparr>add_udp_connection_reply = ConnectionResult_SUCCESS,
      is_connected_reply = (\<lambda>k. 1 \<le> k),
      health_all_ok_reply = (\<lambda>k. 2 \<le> k),
      arm_reply = Action_SUCCESS,
      takeoff_reply = Action_SUCCESS,
      follow_me_start_reply = FollowMe_SUCCESS,
      location_updates = (\<lambda>k. if k = 0 then Some (47.0, 8.5)
                               else if k = 1 then Some (47.001, 8.501) else None),
      follow_me_stop_reply = FollowMe_SUCCESS,
      land_reply = Action_SUCCESS,
      flight_mode_updates = (\<lambda>p. [FlightMode 4]),
      connection_result_str =
        (\<lambda>r. case r of ConnectionResult_SUCCESS \<Rightarrow> ''Success'' | ConnectionResult_other n \<Rightarrow> ''reason''),
      action_result_str =
        (\<lambda>r. case r of Action_SUCCESS \<Rightarrow> ''Success'' | Action_other n \<Rightarrow> ''reason''),
      follow_me_result_str =
        (\<lambda>r. case r of FollowMe_SUCCESS \<Rightarrow> ''Success'' | FollowMe_other n \<Rightarrow> ''reason''),
      flight_mode_str = (\<lambda>m. ''Hold''),
      initial_last_location =
        \<lparr>latitude_deg = 0, longitude_deg = 0, altitude_m = 0,
         velocity_north = 0, velocity_east = 0, velocity_down = 0\<rparr>\<rparr>"

text \<open>The same world with a provider that stops before its first sample.\<close>

definition empty_feed_world :: world where
  "empty_feed_world = nominal_world\<lparr>location_updates := (\<lambda>k. None)\<rparr>"

text \<open>Worlds where the vehicle never reports connected, or never healthy.\<close>

definition never_connected_world :: world where
  "never_connected_world = nominal_world\<lparr>is_connected_reply := (\<lambda>k. False)\<rparr>"

definition never_healthy_world :: world where
  "never_healthy_world = nominal_world\<lparr>health_all_ok_reply := (\<lambda>k. False)\<rparr>"





text \<open>
  The provider made at line 75 is released: no \<^verbatim>\<open>FakeLocationProvider\<close> made by
  \<^verbatim>\<open>new\<close> is left.
\<close>

definition session_released :: "state \<Rightarrow> bool" where
  "session_released s \<longleftrightarrow> location_providers s = 0"

subsection \<open>Monitors\<close>

text \<open>
  A property of the order of events is stated as a monitor: an automaton that
  reads the trace event by event and gets stuck (\<open>None\<close>) at the first event
  that breaks the property. \<open>monitor step q tr\<close> is the state after \<open>tr\<close>, from \<open>q\<close>.
\<close>

fun monitor :: "('q \<Rightarrow> event \<Rightarrow> 'q option) \<Rightarrow> 'q \<Rightarrow> event list \<Rightarrow> 'q option" where
  "monitor step q [] = Some q"
| "monitor step q (e # es) =
     (case step q e of None \<Rightarrow> None | Some q' \<Rightarrow> monitor step q' es)"

text \<open>\<open>accepts step q tr\<close>: the monitor reads all of \<open>tr\<close> without getting stuck.\<close>

fun accepts :: "('q \<Rightarrow> event \<Rightarrow> 'q option) \<Rightarrow> 'q \<Rightarrow> event list \<Rightarrow> bool" where
  "accepts step q [] = True"
| "accepts step q (e # es) =
     (case step q e of None \<Rightarrow> False | Some q' \<Rightarrow> accepts step q' es)"

text \<open>
  The phase Following, read off the trace: it begins when \<^verbatim>\<open>start()\<close> has
  returned \<^verbatim>\<open>SUCCESS\<close> and ends when \<^verbatim>\<open>stop()\<close> is called. The state of the
  monitor says whether the phase is Following; a target location sent in
  another phase is where it gets stuck.
\<close>

fun following_step :: "bool \<Rightarrow> event \<Rightarrow> bool option" where
  "following_step f (FollowMeStart r) = Some (r = FollowMe_SUCCESS)"
| "following_step f (FollowMeStop r) = Some False"
| "following_step f (SetTargetLocation loc) = (if f then Some f else None)"
| "following_step f e = Some f"


text \<open>
  The calls of \<^verbatim>\<open>set_target_location\<close> in flight. The state is the number of calls
  that have begun and not returned. The monitor gets stuck at a call that
  begins while another is in flight, and at a return with no call in flight.
\<close>

fun in_flight_step :: "nat \<Rightarrow> event \<Rightarrow> nat option" where
  "in_flight_step n (SetTargetLocation loc) = (if n = 0 then Some 1 else None)"
| "in_flight_step n SetTargetLocationReturn = (if n = 0 then None else Some (n - 1))"
| "in_flight_step n e = Some n"

text \<open>
  The event loop and the phase Following. The main thread is \<open>Outside\<close> the
  phase; or it has \<open>Entered\<close> it (\<^verbatim>\<open>start()\<close> has returned \<^verbatim>\<open>SUCCESS\<close>) and has not
  yet called \<^verbatim>\<open>io.run()\<close>; or it is \<open>Looping\<close> in \<^verbatim>\<open>io.run()\<close>; or \<^verbatim>\<open>io.run()\<close> has
  \<open>Returned\<close> and \<^verbatim>\<open>stop()\<close> has not yet been called.

  Outside the phase the monitor gets stuck at anything that belongs to the
  loop: the provider, the request for updates, \<^verbatim>\<open>io.run()\<close>, a target location,
  and \<^verbatim>\<open>stop()\<close>. Between entering the phase and entering the loop it lets
  through only what sets the loop up (the provider, the request) and the
  flight-mode callback, which is not on the main thread. In the loop it lets
  through only the two callbacks. Once the loop has returned, only \<^verbatim>\<open>stop()\<close>
  can follow. So the phase Following is: set the loop up, run it, stop.
\<close>

datatype drive = Outside | Entered | Looping | Returned

fun drive_step :: "drive \<Rightarrow> event \<Rightarrow> drive option" where
  "drive_step Outside (FollowMeStart r) =
     Some (if r = FollowMe_SUCCESS then Entered else Outside)"
| "drive_step Outside (FollowMeStop r) = None"
| "drive_step Outside NewFakeLocationProvider = None"
| "drive_step Outside RequestLocationUpdates = None"
| "drive_step Outside IoRun = None"
| "drive_step Outside IoRunReturn = None"
| "drive_step Outside (SetTargetLocation loc) = None"
| "drive_step Outside SetTargetLocationReturn = None"
| "drive_step Outside e = Some Outside"
| "drive_step Entered (GetLastLocation loc) = Some Entered"
| "drive_step Entered (CoutFlightMode m lat lon) = Some Entered"
| "drive_step Entered NewFakeLocationProvider = Some Entered"
| "drive_step Entered RequestLocationUpdates = Some Entered"
| "drive_step Entered IoRun = Some Looping"
| "drive_step Entered e = None"
| "drive_step Looping (SetTargetLocation loc) = Some Looping"
| "drive_step Looping SetTargetLocationReturn = Some Looping"
| "drive_step Looping (GetLastLocation loc) = Some Looping"
| "drive_step Looping (CoutFlightMode m lat lon) = Some Looping"
| "drive_step Looping IoRunReturn = Some Returned"
| "drive_step Looping e = None"
| "drive_step Returned (FollowMeStop r) = Some Outside"
| "drive_step Returned e = None"

text \<open>
  The flight-mode callback and its registration. The state is whether the
  vehicle is armed and whether the callback is registered. The monitor gets
  stuck when the callback is registered before \<^verbatim>\<open>arm()\<close> has succeeded, when
  \<^verbatim>\<open>takeoff()\<close> is called before the registration, and at an event of the
  callback before the registration.
\<close>

fun observer_step :: "bool \<times> bool \<Rightarrow> event \<Rightarrow> (bool \<times> bool) option" where
  "observer_step (a, b) (Arm r) = Some (r = Action_SUCCESS, b)"
| "observer_step (a, b) FlightModeAsync = (if a then Some (a, True) else None)"
| "observer_step (a, b) (Takeoff r) = (if b then Some (a, b) else None)"
| "observer_step (a, b) (GetLastLocation loc) = (if b then Some (a, b) else None)"
| "observer_step (a, b) (CoutFlightMode m lat lon) = (if b then Some (a, b) else None)"
| "observer_step (a, b) e = Some (a, b)"

text \<open>
  What the flight-mode callback prints: the flight modes of its lines, in
  order (\<open>printed_modes\<close>), and the same with the stage each was printed in
  (\<open>printed_by_stage\<close>): before \<^verbatim>\<open>start()\<close> has succeeded, in the phase Following, or
  after \<^verbatim>\<open>stop()\<close> was called. \<open>stage_after\<close> is the stage a trace leaves off in.
\<close>

fun printed_modes :: "event list \<Rightarrow> string list" where
  "printed_modes [] = []"
| "printed_modes (CoutFlightMode m lat lon # es) = m # printed_modes es"
| "printed_modes (e # es) = printed_modes es"




text \<open>
  The flight modes the telemetry reports while the event loop runs, from its
  \<open>k\<close>-th round on, for at most \<open>n\<close> rounds: those of each round, up to and
  with the round in which the provider has stopped.
\<close>

fun loop_updates :: "world \<Rightarrow> nat \<Rightarrow> nat \<Rightarrow> flight_mode list" where
  "loop_updates w k 0 = []"
| "loop_updates w k (Suc n) =
     flight_mode_updates w (DuringIoRun k)
     @ (case location_updates w k of
          None \<Rightarrow> []
        | Some sample \<Rightarrow> loop_updates w (Suc k) n)"

section \<open>Lemmas on the parts of the program\<close>

text \<open>Three kinds of events: those of the polls, of the flight-mode callback, of the event loop.\<close>

fun poll_event :: "event \<Rightarrow> bool" where
  "poll_event (IsConnected b) = True"
| "poll_event (HealthAllOk b) = True"
| "poll_event (SleepFor n) = True"
| "poll_event (Cout x) = True"
| "poll_event e = False"

fun observer_event :: "event \<Rightarrow> bool" where
  "observer_event (GetLastLocation loc) = True"
| "observer_event (CoutFlightMode m lat lon) = True"
| "observer_event e = False"

fun relay_event :: "event \<Rightarrow> bool" where
  "relay_event (SetTargetLocation loc) = True"
| "relay_event SetTargetLocationReturn = True"
| "relay_event e = observer_event e"

definition final :: "(halt \<times> state) + state \<Rightarrow> state" where
  "final r = (case r of Inl (h, s) \<Rightarrow> s | Inr s \<Rightarrow> s)"

text \<open>
  \<open>extends allowed s s'\<close>: from \<open>s\<close> to \<open>s'\<close> the trace has grown by events of one
  kind, and neither the registration of the flight-mode callback nor the number
  of providers has changed.
\<close>

definition extends :: "(event \<Rightarrow> bool) \<Rightarrow> state \<Rightarrow> state \<Rightarrow> bool" where
  "extends allowed s s' \<longleftrightarrow>
     (\<exists>es. list_all allowed es \<and> trace s' = trace s @ es)
     \<and> flight_mode_subscribed s' = flight_mode_subscribed s
     \<and> location_providers s' = location_providers s"

text \<open>
  The same for the event loop, with the target locations it has sent, the calls
  in flight, and the flight modes printed while it ran.
\<close>

definition relays :: "world \<Rightarrow> nat \<Rightarrow> nat \<Rightarrow> state \<Rightarrow> state \<Rightarrow> bool" where
  "relays w k fuel s s' \<longleftrightarrow>
     (\<exists>es. list_all relay_event es \<and> forwarded es = map target_of (delivered w k fuel)
        \<and> monitor in_flight_step 0 es = Some 0
        \<and> (flight_mode_subscribed s \<longrightarrow>
             printed_modes es = map (flight_mode_str w) (loop_updates w k fuel))
        \<and> trace s' = trace s @ es)
     \<and> flight_mode_subscribed s' = flight_mode_subscribed s
     \<and> location_providers s' = location_providers s"

definition telemetry_events ::
  "world \<Rightarrow> wait_point \<Rightarrow> bool \<Rightarrow> target_location \<Rightarrow> event list" where
  "telemetry_events w p sub loc =
     (if sub then concat (map (\<lambda>m. [GetLastLocation loc,
            CoutFlightMode (flight_mode_str w m) (latitude_deg loc) (longitude_deg loc)])
          (flight_mode_updates w p)) else [])"

lemma emit_simps [simp]:
  "trace (emit es s) = trace s @ es"
  "follow_me_last_location (emit es s) = follow_me_last_location s"
  "flight_mode_subscribed (emit es s) = flight_mode_subscribed s"
  "location_providers (emit es s) = location_providers s"
  by (simp_all add: emit_def)

lemma emit_emit: "emit es (emit es' s) = emit (es' @ es) s"
  by (simp add: emit_def)

lemma emit_Nil: "emit [] s = s"
  by (simp add: emit_def)

lemma extends_refl: "extends a s s"
  by (simp add: extends_def)

lemma extends_trans: "extends a s s' \<Longrightarrow> extends a s' s'' \<Longrightarrow> extends a s s''"
  unfolding extends_def
  by (metis append.assoc list_all_append)

lemma extends_emit: "list_all a es \<Longrightarrow> extends a s (emit es s)"
  by (auto simp: extends_def)

subsection \<open>The polls\<close>

lemma wait_connected_extends:
  "extends poll_event s (final (wait_connected w k fuel s))"
proof (induction fuel arbitrary: k s)
  case 0
  show ?case by (simp add: final_def extends_refl)
next
  case (Suc fuel)
  show ?case
  proof (cases "is_connected_reply w k")
    case True
    then show ?thesis by (simp add: final_def extends_emit)
  next
    case False
    have "extends poll_event s (emit [IsConnected False,
                    Cout (''Wait for device to connect via heartbeat'' @ endl),
                    SleepFor 1] s)" by (simp add: extends_emit)
    then show ?thesis using False Suc.IH extends_trans by fastforce
  qed
qed

lemma wait_connected_Inl:
  "wait_connected w k fuel s = Inl (h, s') \<Longrightarrow>
     h = OutOfFuel \<and> (\<forall>j<fuel. \<not> is_connected_reply w (k + j))"
proof (induction fuel arbitrary: k s)
  case 0
  then show ?case by simp
next
  case (Suc fuel)
  from Suc.prems have no: "\<not> is_connected_reply w k" by (auto split: if_splits)
  with Suc.prems Suc.IH [of "Suc k"] have
    ih: "h = OutOfFuel \<and> (\<forall>j<fuel. \<not> is_connected_reply w (Suc k + j))" by simp
  have "\<not> is_connected_reply w (k + j)" if "j < Suc fuel" for j
    using that no ih by (cases j) auto
  with ih show ?case by blast
qed

lemma wait_connected_blocked:
  "(\<forall>j<fuel. \<not> is_connected_reply w (k + j)) \<Longrightarrow>
     wait_connected w k fuel s = Inl (OutOfFuel, emit (connect_polls fuel) s)"
proof (induction fuel arbitrary: k s)
  case 0
  show ?case by (simp add: connect_polls_def emit_Nil)
next
  case (Suc fuel)
  have no: "\<not> is_connected_reply w k" using Suc.prems by force
  have rest: "\<forall>j<fuel. \<not> is_connected_reply w (Suc k + j)" using Suc.prems by force
  show ?case using no Suc.IH [OF rest] by (simp add: emit_emit connect_polls_def)
qed

lemma wait_connected_found:
  "(\<forall>j<n. \<not> is_connected_reply w (k + j)) \<Longrightarrow> is_connected_reply w (k + n) \<Longrightarrow> n < fuel \<Longrightarrow>
     wait_connected w k fuel s = Inr (emit (connect_polls n @ [IsConnected True]) s)"
proof (induction fuel arbitrary: k n s)
  case 0
  then show ?case by simp
next
  case (Suc fuel)
  show ?case
  proof (cases n)
    case 0
    then show ?thesis using Suc.prems by (simp add: connect_polls_def)
  next
    case (Suc m)
    have no: "\<not> is_connected_reply w k" using Suc.prems(1) Suc by force
    have rest: "\<forall>j<m. \<not> is_connected_reply w (Suc k + j)" using Suc.prems(1) Suc by force
    have "wait_connected w (Suc k) fuel (emit [IsConnected False,
                    Cout (''Wait for device to connect via heartbeat'' @ endl),
                    SleepFor 1] s) = Inr (emit (connect_polls m @ [IsConnected True]) (emit [IsConnected False,
                    Cout (''Wait for device to connect via heartbeat'' @ endl),
                    SleepFor 1] s))"
      using Suc.IH [OF rest] Suc.prems Suc by simp
    then show ?thesis using no Suc by (simp add: emit_emit connect_polls_def)
  qed
qed

lemma wait_health_all_ok_extends:
  "extends poll_event s (final (wait_health_all_ok w k fuel s))"
proof (induction fuel arbitrary: k s)
  case 0
  show ?case by (simp add: final_def extends_refl)
next
  case (Suc fuel)
  show ?case
  proof (cases "health_all_ok_reply w k")
    case True
    then show ?thesis by (simp add: final_def extends_emit)
  next
    case False
    have "extends poll_event s (emit [HealthAllOk False,
                    Cout (''Waiting for device to be ready'' @ endl),
                    SleepFor 1] s)" by (simp add: extends_emit)
    then show ?thesis using False Suc.IH extends_trans by fastforce
  qed
qed

lemma wait_health_all_ok_Inl:
  "wait_health_all_ok w k fuel s = Inl (h, s') \<Longrightarrow>
     h = OutOfFuel \<and> (\<forall>j<fuel. \<not> health_all_ok_reply w (k + j))"
proof (induction fuel arbitrary: k s)
  case 0
  then show ?case by simp
next
  case (Suc fuel)
  from Suc.prems have no: "\<not> health_all_ok_reply w k" by (auto split: if_splits)
  with Suc.prems Suc.IH [of "Suc k"] have
    ih: "h = OutOfFuel \<and> (\<forall>j<fuel. \<not> health_all_ok_reply w (Suc k + j))" by simp
  have "\<not> health_all_ok_reply w (k + j)" if "j < Suc fuel" for j
    using that no ih by (cases j) auto
  with ih show ?case by blast
qed

lemma wait_health_all_ok_blocked:
  "(\<forall>j<fuel. \<not> health_all_ok_reply w (k + j)) \<Longrightarrow>
     wait_health_all_ok w k fuel s = Inl (OutOfFuel, emit (health_polls fuel) s)"
proof (induction fuel arbitrary: k s)
  case 0
  show ?case by (simp add: health_polls_def emit_Nil)
next
  case (Suc fuel)
  have no: "\<not> health_all_ok_reply w k" using Suc.prems by force
  have rest: "\<forall>j<fuel. \<not> health_all_ok_reply w (Suc k + j)" using Suc.prems by force
  show ?case using no Suc.IH [OF rest] by (simp add: emit_emit health_polls_def)
qed

lemma wait_health_all_ok_found:
  "(\<forall>j<n. \<not> health_all_ok_reply w (k + j)) \<Longrightarrow> health_all_ok_reply w (k + n) \<Longrightarrow> n < fuel \<Longrightarrow>
     wait_health_all_ok w k fuel s = Inr (emit (health_polls n @ [HealthAllOk True]) s)"
proof (induction fuel arbitrary: k n s)
  case 0
  then show ?case by simp
next
  case (Suc fuel)
  show ?case
  proof (cases n)
    case 0
    then show ?thesis using Suc.prems by (simp add: health_polls_def)
  next
    case (Suc m)
    have no: "\<not> health_all_ok_reply w k" using Suc.prems(1) Suc by force
    have rest: "\<forall>j<m. \<not> health_all_ok_reply w (Suc k + j)" using Suc.prems(1) Suc by force
    have "wait_health_all_ok w (Suc k) fuel (emit [HealthAllOk False,
                    Cout (''Waiting for device to be ready'' @ endl),
                    SleepFor 1] s) = Inr (emit (health_polls m @ [HealthAllOk True]) (emit [HealthAllOk False,
                    Cout (''Waiting for device to be ready'' @ endl),
                    SleepFor 1] s))"
      using Suc.IH [OF rest] Suc.prems Suc by simp
    then show ?thesis using no Suc by (simp add: emit_emit health_polls_def)
  qed
qed

subsection \<open>The flight-mode callback\<close>

lemma fold_callback_eq:
  "fold (flight_mode_callback w) ms s =
     emit (concat (map (\<lambda>m. [GetLastLocation (follow_me_last_location s),
            CoutFlightMode (flight_mode_str w m) (latitude_deg (follow_me_last_location s))
              (longitude_deg (follow_me_last_location s))]) ms)) s"
proof (induction ms arbitrary: s)
  case Nil
  show ?case by (simp add: emit_def)
next
  case (Cons m ms)
  show ?case by (simp add: Cons.IH) (simp add: flight_mode_callback_def emit_def Let_def)
qed

lemma telemetry_updates_eq:
  "telemetry_updates w p s =
     emit (telemetry_events w p (flight_mode_subscribed s) (follow_me_last_location s)) s"
  by (simp add: telemetry_updates_def telemetry_events_def fold_callback_eq emit_def)

lemma telemetry_events_observer: "list_all observer_event (telemetry_events w p sub loc)"
  by (simp add: telemetry_events_def list_all_iff) auto

lemma telemetry_events_unsubscribed [simp]: "telemetry_events w p False loc = []"
  by (simp add: telemetry_events_def)

subsection \<open>The event loop\<close>

lemma forwarded_append: "forwarded (xs @ ys) = forwarded xs @ forwarded ys"
  by (induction xs rule: forwarded.induct) simp_all

lemma forwarded_observer: "list_all observer_event es \<Longrightarrow> forwarded es = []"
  by (induction es rule: forwarded.induct) simp_all

lemma forwarded_poll: "list_all poll_event es \<Longrightarrow> forwarded es = []"
  by (induction es rule: forwarded.induct) simp_all

lemma observer_relay: "list_all observer_event es \<Longrightarrow> list_all relay_event es"
  by (induction es) (auto elim: observer_event.elims)

lemma location_callback_eq:
  "location_callback lat lon s =
     emit [SetTargetLocation (target_of (lat, lon)), SetTargetLocationReturn]
       (s\<lparr>follow_me_last_location := target_of (lat, lon)\<rparr>)"
  by (simp add: location_callback_def set_target_location_def target_of_def Let_def emit_def)

lemma monitor_append:
  "monitor step q (xs @ ys) =
     (case monitor step q xs of None \<Rightarrow> None | Some q' \<Rightarrow> monitor step q' ys)"
  by (induction xs arbitrary: q) (simp_all split: option.splits)

lemma monitor_idle:
  "list_all a es \<Longrightarrow> (\<And>e. a e \<Longrightarrow> step q e = Some q) \<Longrightarrow> monitor step q es = Some q"
  by (induction es) simp_all

lemma in_flight_observer:
  "list_all observer_event es \<Longrightarrow> monitor in_flight_step n es = Some n"
  by (erule monitor_idle) (auto elim: observer_event.elims)

lemma printed_modes_append: "printed_modes (xs @ ys) = printed_modes xs @ printed_modes ys"
  by (induction xs rule: printed_modes.induct) simp_all

lemma printed_modes_callbacks:
  "printed_modes (concat (map (\<lambda>m. [GetLastLocation loc, CoutFlightMode (f m) lat lon]) ms)) =
     map f ms"
  by (induction ms) simp_all

lemma printed_modes_telemetry:
  "printed_modes (telemetry_events w p sub loc) =
     (if sub then map (flight_mode_str w) (flight_mode_updates w p) else [])"
  by (simp add: telemetry_events_def printed_modes_callbacks)

lemma io_run_relays: "relays w k fuel s (final (io_run w k fuel s))"
proof (induction fuel arbitrary: k s)
  case 0
  show ?case by (simp add: final_def relays_def)
next
  case (Suc fuel)
  define s1 where "s1 = telemetry_updates w (DuringIoRun k) s"
  define es1 where
    "es1 = telemetry_events w (DuringIoRun k) (flight_mode_subscribed s) (follow_me_last_location s)"
  have es1: "list_all observer_event es1" "trace s1 = trace s @ es1"
    "flight_mode_subscribed s1 = flight_mode_subscribed s"
    "location_providers s1 = location_providers s"
    by (simp_all add: es1_def s1_def telemetry_updates_eq telemetry_events_observer)
  show ?case
  proof (cases "location_updates w k")
    case None
    then show ?thesis using es1
      by (auto simp: final_def relays_def s1_def [symmetric] forwarded_observer observer_relay
          in_flight_observer es1_def printed_modes_telemetry)
  next
    case (Some a)
    obtain lat lon where a: "a = (lat, lon)" by (cases a)
    define s2 where "s2 = location_callback lat lon s1"
    have run: "io_run w k (Suc fuel) s = io_run w (Suc k) fuel s2"
      using Some a by (simp add: s1_def s2_def)
    from Suc.IH [of "Suc k" s2] obtain es where es: "list_all relay_event es"
      "forwarded es = map target_of (delivered w (Suc k) fuel)"
      "trace (final (io_run w (Suc k) fuel s2)) = trace s2 @ es"
      "monitor in_flight_step 0 es = Some 0"
      "flight_mode_subscribed s2 \<longrightarrow>
         printed_modes es = map (flight_mode_str w) (loop_updates w (Suc k) fuel)"
      "flight_mode_subscribed (final (io_run w (Suc k) fuel s2)) = flight_mode_subscribed s2"
      "location_providers (final (io_run w (Suc k) fuel s2)) = location_providers s2"
      unfolding relays_def by blast
    have s2: "trace s2 = trace s @ es1 @ [SetTargetLocation (target_of a), SetTargetLocationReturn]"
      "flight_mode_subscribed s2 = flight_mode_subscribed s"
      "location_providers s2 = location_providers s"
      using es1 a by (simp_all add: s2_def location_callback_eq)
    let ?es = "es1 @ [SetTargetLocation (target_of a), SetTargetLocationReturn] @ es"
    have "list_all relay_event ?es" using es(1) es1(1) observer_relay by simp
    moreover have "forwarded ?es = map target_of (delivered w k (Suc fuel))"
      using es(2) es1(1) Some by (simp add: forwarded_append forwarded_observer)
    moreover have "monitor in_flight_step 0 ?es = Some 0"
      using es(4) es1(1) by (simp add: monitor_append in_flight_observer)
    moreover have "flight_mode_subscribed s \<longrightarrow>
        printed_modes ?es = map (flight_mode_str w) (loop_updates w k (Suc fuel))"
      using es(5) s2(2) Some
      by (simp add: printed_modes_append es1_def printed_modes_telemetry)
    moreover have "trace (final (io_run w k (Suc fuel) s)) = trace s @ ?es"
      using run es(3) s2(1) by simp
    ultimately show ?thesis unfolding relays_def using run es(6,7) s2(2,3) by auto
  qed
qed

lemma io_run_Inl:
  "io_run w k fuel s = Inl (h, s') \<Longrightarrow>
     h = OutOfFuel \<and> (\<forall>j<fuel. location_updates w (k + j) \<noteq> None)"
proof (induction fuel arbitrary: k s)
  case 0
  then show ?case by simp
next
  case (Suc fuel)
  from Suc.prems obtain a where a: "location_updates w k = Some a"
    by (auto simp: Let_def split: option.splits)
  obtain lat lon where p: "a = (lat, lon)" by (cases a)
  from Suc.prems a p Suc.IH [of "Suc k"] have
    ih: "h = OutOfFuel \<and> (\<forall>j<fuel. location_updates w (Suc k + j) \<noteq> None)"
    by (simp add: Let_def)
  have "location_updates w (k + j) \<noteq> None" if "j < Suc fuel" for j
    using that a ih by (cases j) auto
  with ih show ?case by blast
qed

subsection \<open>What a loop leaves behind, as destruction rules\<close>

lemma wait_connected_InrD:
  "wait_connected w k fuel s = Inr s' \<Longrightarrow> extends poll_event s s'"
  using wait_connected_extends [of s w k fuel] by (simp add: final_def)

lemma wait_connected_InlD:
  "wait_connected w k fuel s = Inl (h, s') \<Longrightarrow>
     h = OutOfFuel \<and> extends poll_event s s' \<and> (\<forall>j<fuel. \<not> is_connected_reply w (k + j))"
  using wait_connected_extends [of s w k fuel] wait_connected_Inl [of w k fuel s h s']
  by (simp add: final_def)

lemma wait_health_all_ok_InrD:
  "wait_health_all_ok w k fuel s = Inr s' \<Longrightarrow> extends poll_event s s'"
  using wait_health_all_ok_extends [of s w k fuel] by (simp add: final_def)

lemma wait_health_all_ok_InlD:
  "wait_health_all_ok w k fuel s = Inl (h, s') \<Longrightarrow>
     h = OutOfFuel \<and> extends poll_event s s' \<and> (\<forall>j<fuel. \<not> health_all_ok_reply w (k + j))"
  using wait_health_all_ok_extends [of s w k fuel] wait_health_all_ok_Inl [of w k fuel s h s']
  by (simp add: final_def)

lemma io_run_InrD: "io_run w k fuel s = Inr s' \<Longrightarrow> relays w k fuel s s'"
  using io_run_relays [of w k fuel s] by (simp add: final_def)

lemma io_run_InlD:
  "io_run w k fuel s = Inl (h, s') \<Longrightarrow>
     h = OutOfFuel \<and> relays w k fuel s s' \<and> (\<forall>j<fuel. location_updates w (k + j) \<noteq> None)"
  using io_run_relays [of w k fuel s] io_run_Inl [of w k fuel s h s']
  by (simp add: final_def)

lemmas loopD = wait_connected_InrD wait_connected_InlD wait_health_all_ok_InrD
  wait_health_all_ok_InlD io_run_InrD io_run_InlD

lemmas exit_defs = connection_error_exit_def action_error_exit_def follow_me_error_exit_def

subsection \<open>Monitors\<close>

lemma accepts_append:
  "accepts step q (xs @ ys) =
     (case monitor step q xs of None \<Rightarrow> False | Some q' \<Rightarrow> accepts step q' ys)"
  by (induction xs arbitrary: q) (simp_all split: option.splits)

lemma following_poll: "list_all poll_event es \<Longrightarrow> monitor following_step f es = Some f"
  by (erule monitor_idle) (auto elim: poll_event.elims)

lemma following_observer: "list_all observer_event es \<Longrightarrow> monitor following_step f es = Some f"
  by (erule monitor_idle) (auto elim: observer_event.elims)

lemma following_relay: "list_all relay_event es \<Longrightarrow> monitor following_step True es = Some True"
  by (erule monitor_idle) (auto elim!: relay_event.elims observer_event.elims)

lemma accepts_idle:
  "list_all a es \<Longrightarrow> (\<And>e. a e \<Longrightarrow> step q e = Some q) \<Longrightarrow> accepts step q es"
  by (induction es) simp_all

lemma following_accepts_poll: "list_all poll_event es \<Longrightarrow> accepts following_step f es"
  by (erule accepts_idle) (auto elim: poll_event.elims)

lemma following_accepts_observer: "list_all observer_event es \<Longrightarrow> accepts following_step f es"
  by (erule accepts_idle) (auto elim: observer_event.elims)

lemma following_accepts_relay: "list_all relay_event es \<Longrightarrow> accepts following_step True es"
  by (erule accepts_idle) (auto elim!: relay_event.elims observer_event.elims)

lemmas following_simps = following_poll following_observer following_relay
  following_accepts_poll following_accepts_observer following_accepts_relay









subsection \<open>Projections of a trace\<close>

lemma wait_connected_Inr_found:
  "wait_connected w k fuel s = Inr s' \<Longrightarrow> \<exists>j<fuel. is_connected_reply w (k + j)"
proof (induction fuel arbitrary: k s)
  case 0
  then show ?case by simp
next
  case (Suc fuel)
  show ?case
  proof (cases "is_connected_reply w k")
    case True
    then show ?thesis by (intro exI [of _ 0]) simp
  next
    case False
    with Suc.prems Suc.IH [of "Suc k"] obtain j where "j < fuel" "is_connected_reply w (Suc k + j)"
      by auto
    then show ?thesis by (intro exI [of _ "Suc j"]) simp
  qed
qed

lemma wait_health_all_ok_Inr_found:
  "wait_health_all_ok w k fuel s = Inr s' \<Longrightarrow> \<exists>j<fuel. health_all_ok_reply w (k + j)"
proof (induction fuel arbitrary: k s)
  case 0
  then show ?case by simp
next
  case (Suc fuel)
  show ?case
  proof (cases "health_all_ok_reply w k")
    case True
    then show ?thesis by (intro exI [of _ 0]) simp
  next
    case False
    with Suc.prems Suc.IH [of "Suc k"] obtain j where "j < fuel" "health_all_ok_reply w (Suc k + j)"
      by auto
    then show ?thesis by (intro exI [of _ "Suc j"]) simp
  qed
qed

lemma commands_poll: "list_all poll_event es \<Longrightarrow> filter is_command es = []"
  by (induction es) (auto elim: poll_event.elims)

lemma commands_observer: "list_all observer_event es \<Longrightarrow> filter is_command es = []"
  by (induction es) (auto elim: observer_event.elims)

lemma commands_relay:
  "list_all relay_event es \<Longrightarrow> filter is_command es = map SetTargetLocation (forwarded es)"
  by (induction es rule: forwarded.induct) simp_all

lemma phase_commands_poll: "list_all poll_event es \<Longrightarrow> filter is_phase_command es = []"
  by (induction es) (auto elim: poll_event.elims)

lemma phase_commands_observer: "list_all observer_event es \<Longrightarrow> filter is_phase_command es = []"
  by (induction es) (auto elim: observer_event.elims)

lemma phase_commands_relay: "list_all relay_event es \<Longrightarrow> filter is_phase_command es = []"
  by (induction es) (auto elim!: relay_event.elims observer_event.elims)

lemma stderr_of_append: "stderr_of (xs @ ys) = stderr_of xs @ stderr_of ys"
  by (induction xs rule: stderr_of.induct) simp_all

lemma stderr_of_poll: "list_all poll_event es \<Longrightarrow> stderr_of es = []"
  by (induction es rule: stderr_of.induct) simp_all

lemma stderr_of_observer: "list_all observer_event es \<Longrightarrow> stderr_of es = []"
  by (induction es rule: stderr_of.induct) simp_all

lemma stderr_of_relay: "list_all relay_event es \<Longrightarrow> stderr_of es = []"
  by (induction es rule: stderr_of.induct) simp_all

lemmas projection_simps = commands_poll commands_observer commands_relay
  phase_commands_poll phase_commands_observer phase_commands_relay
  stderr_of_append stderr_of_poll stderr_of_observer stderr_of_relay
  forwarded_append forwarded_poll forwarded_observer telemetry_events_observer

subsection \<open>Runs that get through the loops\<close>

lemma wait_connected_InrD':
  "wait_connected w k fuel s = Inr s' \<Longrightarrow>
     extends poll_event s s' \<and> (\<exists>j<fuel. is_connected_reply w (k + j))"
  using wait_connected_InrD wait_connected_Inr_found by blast

lemma wait_health_all_ok_InrD':
  "wait_health_all_ok w k fuel s = Inr s' \<Longrightarrow>
     extends poll_event s s' \<and> (\<exists>j<fuel. health_all_ok_reply w (k + j))"
  using wait_health_all_ok_InrD wait_health_all_ok_Inr_found by blast

lemmas loopD' = wait_connected_InrD' wait_connected_InlD wait_health_all_ok_InrD'
  wait_health_all_ok_InlD io_run_InrD io_run_InlD



lemma complete_run:
  assumes "reaches_following fuel w"
    and "\<not> (\<forall>j<fuel. location_updates w (0 + j) \<noteq> None)"
    and "follow_me_stop_reply w = FollowMe_SUCCESS"
    and "land_reply w = Action_SUCCESS"
  shows "case main fuel w of (h, s) \<Rightarrow>
     vehicle_commands (trace s) =
       [AddUdpConnection ConnectionResult_SUCCESS, Arm Action_SUCCESS, Takeoff Action_SUCCESS,
        FollowMeStart FollowMe_SUCCESS]
       @ map SetTargetLocation (map target_of (delivered w 0 fuel))
       @ [FollowMeStop FollowMe_SUCCESS, Land Action_SUCCESS]
     \<and> h = Exit 0"
  using assms
  unfolding main_def Let_def exit_defs telemetry_updates_eq reaches_following_def
    ready_within_def vehicle_commands_def
  by (auto split: sum.splits if_splits dest!: loopD'
      simp: extends_def relays_def init_def projection_simps)

lemma three_rounds: "2 < fuel \<Longrightarrow> \<exists>n. fuel = Suc (Suc (Suc n))" for fuel :: nat
  by (cases fuel; simp; rename_tac m; case_tac m; simp; rename_tac k; case_tac k; simp)

subsection \<open>Runs that a failed command ends\<close>

lemmas abort_unfolds = main_def Let_def exit_defs telemetry_updates_eq reaches_following_def
  ready_within_def feed_ends_within_def vehicle_commands_def aborted_def diagnostic_def

lemmas abort_simps = extends_def relays_def init_def EXIT_FAILURE_def projection_simps

lemma connection_failure_aborts:
  assumes "add_udp_connection_reply w \<noteq> ConnectionResult_SUCCESS"
  shows "aborted (main fuel w) [AddUdpConnection (add_udp_connection_reply w)]
           ''Connection failed'' (connection_result_str w (add_udp_connection_reply w))"
  using assms unfolding abort_unfolds
  by (auto split: sum.splits if_splits dest!: loopD' simp: abort_simps)

lemma arm_failure_aborts:
  assumes "add_udp_connection_reply w = ConnectionResult_SUCCESS" and "ready_within fuel w"
    and "arm_reply w \<noteq> Action_SUCCESS"
  shows "aborted (main fuel w)
           [AddUdpConnection ConnectionResult_SUCCESS, Arm (arm_reply w)]
           ''Arming failed'' (action_result_str w (arm_reply w))"
  using assms unfolding abort_unfolds
  by (auto split: sum.splits if_splits dest!: loopD' simp: abort_simps)

lemma takeoff_failure_aborts:
  assumes "add_udp_connection_reply w = ConnectionResult_SUCCESS" and "ready_within fuel w"
    and "arm_reply w = Action_SUCCESS" and "takeoff_reply w \<noteq> Action_SUCCESS"
  shows "aborted (main fuel w)
           [AddUdpConnection ConnectionResult_SUCCESS, Arm Action_SUCCESS,
            Takeoff (takeoff_reply w)]
           ''Takeoff failed'' (action_result_str w (takeoff_reply w))"
  using assms unfolding abort_unfolds
  by (auto split: sum.splits if_splits dest!: loopD' simp: abort_simps)

lemma start_failure_aborts:
  assumes "add_udp_connection_reply w = ConnectionResult_SUCCESS" and "ready_within fuel w"
    and "arm_reply w = Action_SUCCESS" and "takeoff_reply w = Action_SUCCESS"
    and "follow_me_start_reply w \<noteq> FollowMe_SUCCESS"
  shows "aborted (main fuel w)
           [AddUdpConnection ConnectionResult_SUCCESS, Arm Action_SUCCESS,
            Takeoff Action_SUCCESS, FollowMeStart (follow_me_start_reply w)]
           ''Failed to start FollowMe mode'' (follow_me_result_str w (follow_me_start_reply w))"
  using assms unfolding abort_unfolds
  by (auto split: sum.splits if_splits dest!: loopD' simp: abort_simps)

lemma feed_ends: "feed_ends_within fuel w \<Longrightarrow> \<not> (\<forall>j<fuel. location_updates w (0 + j) \<noteq> None)"
  by (auto simp: feed_ends_within_def)

lemma stop_failure_aborts:
  assumes "reaches_following fuel w" and "feed_ends_within fuel w"
    and "follow_me_stop_reply w \<noteq> FollowMe_SUCCESS"
  shows "aborted (main fuel w)
           ([AddUdpConnection ConnectionResult_SUCCESS, Arm Action_SUCCESS,
             Takeoff Action_SUCCESS, FollowMeStart FollowMe_SUCCESS]
            @ map SetTargetLocation (map target_of (delivered w 0 fuel))
            @ [FollowMeStop (follow_me_stop_reply w)])
           ''Failed to stop FollowMe mode'' (follow_me_result_str w (follow_me_stop_reply w))"
  using assms(1,3) feed_ends [OF assms(2)] unfolding abort_unfolds
  by (auto split: sum.splits if_splits dest!: loopD' simp: abort_simps)

lemma land_failure_aborts:
  assumes "reaches_following fuel w" and "feed_ends_within fuel w"
    and "follow_me_stop_reply w = FollowMe_SUCCESS" and "land_reply w \<noteq> Action_SUCCESS"
  shows "aborted (main fuel w)
           ([AddUdpConnection ConnectionResult_SUCCESS, Arm Action_SUCCESS,
             Takeoff Action_SUCCESS, FollowMeStart FollowMe_SUCCESS]
            @ map SetTargetLocation (map target_of (delivered w 0 fuel))
            @ [FollowMeStop FollowMe_SUCCESS, Land (land_reply w)])
           ''Landing failed'' (action_result_str w (land_reply w))"
  using assms(1,3,4) feed_ends [OF assms(2)] unfolding abort_unfolds
  by (auto split: sum.splits if_splits dest!: loopD' simp: abort_simps)

subsection \<open>The event loop in the phase Following, and what the flight-mode callback prints\<close>
























section \<open>The claims\<close>

text \<open>
  C1. A complete run, one that ends with exit status 0, has sent each of the
  five phase commands exactly once, in the order arm, take-off, start, stop,
  land, and each of them returned \<^verbatim>\<open>SUCCESS\<close> before the next was sent.
\<close>

theorem phase_commands_in_order:
  assumes "fst (main fuel w) = Exit 0"
  shows "phase_commands (trace (snd (main fuel w))) =
           [Arm Action_SUCCESS, Takeoff Action_SUCCESS, FollowMeStart FollowMe_SUCCESS,
            FollowMeStop FollowMe_SUCCESS, Land Action_SUCCESS]"
proof -
  have "case main fuel w of (h, s) \<Rightarrow> h = Exit 0 \<longrightarrow>
          phase_commands (trace s) =
           [Arm Action_SUCCESS, Takeoff Action_SUCCESS, FollowMeStart FollowMe_SUCCESS,
            FollowMeStop FollowMe_SUCCESS, Land Action_SUCCESS]"
    unfolding main_def Let_def exit_defs telemetry_updates_eq phase_commands_def
    by (auto split: sum.splits if_splits dest!: loopD
        simp: extends_def relays_def init_def EXIT_FAILURE_def projection_simps)
  with assms show ?thesis by (simp add: case_prod_beta)
qed

theorem phase_commands_in_order_witness:
  "fst (main 3 nominal_world) = Exit 0
   \<and> phase_commands (trace (snd (main 3 nominal_world))) =
           [Arm Action_SUCCESS, Takeoff Action_SUCCESS, FollowMeStart FollowMe_SUCCESS,
            FollowMeStop FollowMe_SUCCESS, Land Action_SUCCESS]"
proof -
  have complete: "fst (main 3 nominal_world) = Exit 0" by code_simp
  from phase_commands_in_order [OF complete] complete show ?thesis by simp
qed

text \<open>
  C2. A command that fails ends the mission at once. For each of the six
  commands (connection, arm, take-off, start, stop, land): if the run gets to
  the command and the command returns a result other than \<^verbatim>\<open>SUCCESS\<close>, then the
  process exits with \<^verbatim>\<open>EXIT_FAILURE\<close>, which is not 0; the failed command is the
  last command sent; and \<^verbatim>\<open>std::cerr\<close> holds the message that names the phase
  followed by the reason string the library gives for the result. When
  \<^verbatim>\<open>arm()\<close> fails, the commands sent are the connection and arm: no take-off,
  no start, no target location.
\<close>

theorem failure_aborts:
  "(add_udp_connection_reply w \<noteq> ConnectionResult_SUCCESS \<longrightarrow>
      aborted (main fuel w) [AddUdpConnection (add_udp_connection_reply w)]
        ''Connection failed'' (connection_result_str w (add_udp_connection_reply w)))
   \<and> (add_udp_connection_reply w = ConnectionResult_SUCCESS \<and> ready_within fuel w
        \<and> arm_reply w \<noteq> Action_SUCCESS \<longrightarrow>
      aborted (main fuel w)
        [AddUdpConnection ConnectionResult_SUCCESS, Arm (arm_reply w)]
        ''Arming failed'' (action_result_str w (arm_reply w)))
   \<and> (add_udp_connection_reply w = ConnectionResult_SUCCESS \<and> ready_within fuel w
        \<and> arm_reply w = Action_SUCCESS \<and> takeoff_reply w \<noteq> Action_SUCCESS \<longrightarrow>
      aborted (main fuel w)
        [AddUdpConnection ConnectionResult_SUCCESS, Arm Action_SUCCESS, Takeoff (takeoff_reply w)]
        ''Takeoff failed'' (action_result_str w (takeoff_reply w)))
   \<and> (add_udp_connection_reply w = ConnectionResult_SUCCESS \<and> ready_within fuel w
        \<and> arm_reply w = Action_SUCCESS \<and> takeoff_reply w = Action_SUCCESS
        \<and> follow_me_start_reply w \<noteq> FollowMe_SUCCESS \<longrightarrow>
      aborted (main fuel w)
        [AddUdpConnection ConnectionResult_SUCCESS, Arm Action_SUCCESS, Takeoff Action_SUCCESS,
         FollowMeStart (follow_me_start_reply w)]
        ''Failed to start FollowMe mode'' (follow_me_result_str w (follow_me_start_reply w)))
   \<and> (reaches_following fuel w \<and> feed_ends_within fuel w
        \<and> follow_me_stop_reply w \<noteq> FollowMe_SUCCESS \<longrightarrow>
      aborted (main fuel w)
        ([AddUdpConnection ConnectionResult_SUCCESS, Arm Action_SUCCESS, Takeoff Action_SUCCESS,
          FollowMeStart FollowMe_SUCCESS]
         @ map SetTargetLocation (map target_of (delivered w 0 fuel))
         @ [FollowMeStop (follow_me_stop_reply w)])
        ''Failed to stop FollowMe mode'' (follow_me_result_str w (follow_me_stop_reply w)))
   \<and> (reaches_following fuel w \<and> feed_ends_within fuel w
        \<and> follow_me_stop_reply w = FollowMe_SUCCESS \<and> land_reply w \<noteq> Action_SUCCESS \<longrightarrow>
      aborted (main fuel w)
        ([AddUdpConnection ConnectionResult_SUCCESS, Arm Action_SUCCESS, Takeoff Action_SUCCESS,
          FollowMeStart FollowMe_SUCCESS]
         @ map SetTargetLocation (map target_of (delivered w 0 fuel))
         @ [FollowMeStop FollowMe_SUCCESS, Land (land_reply w)])
        ''Landing failed'' (action_result_str w (land_reply w)))"
proof (intro conjI impI)
  assume "add_udp_connection_reply w \<noteq> ConnectionResult_SUCCESS"
  then show "aborted (main fuel w) [AddUdpConnection (add_udp_connection_reply w)]
        ''Connection failed'' (connection_result_str w (add_udp_connection_reply w))"
    by (rule connection_failure_aborts)
next
  assume "add_udp_connection_reply w = ConnectionResult_SUCCESS \<and> ready_within fuel w
        \<and> arm_reply w \<noteq> Action_SUCCESS"
  then show "aborted (main fuel w)
        [AddUdpConnection ConnectionResult_SUCCESS, Arm (arm_reply w)]
        ''Arming failed'' (action_result_str w (arm_reply w))"
    by (simp add: arm_failure_aborts)
next
  assume "add_udp_connection_reply w = ConnectionResult_SUCCESS \<and> ready_within fuel w
        \<and> arm_reply w = Action_SUCCESS \<and> takeoff_reply w \<noteq> Action_SUCCESS"
  then show "aborted (main fuel w)
        [AddUdpConnection ConnectionResult_SUCCESS, Arm Action_SUCCESS, Takeoff (takeoff_reply w)]
        ''Takeoff failed'' (action_result_str w (takeoff_reply w))"
    by (simp add: takeoff_failure_aborts)
next
  assume "add_udp_connection_reply w = ConnectionResult_SUCCESS \<and> ready_within fuel w
        \<and> arm_reply w = Action_SUCCESS \<and> takeoff_reply w = Action_SUCCESS
        \<and> follow_me_start_reply w \<noteq> FollowMe_SUCCESS"
  then show "aborted (main fuel w)
        [AddUdpConnection ConnectionResult_SUCCESS, Arm Action_SUCCESS, Takeoff Action_SUCCESS,
         FollowMeStart (follow_me_start_reply w)]
        ''Failed to start FollowMe mode'' (follow_me_result_str w (follow_me_start_reply w))"
    by (simp add: start_failure_aborts)
next
  assume "reaches_following fuel w \<and> feed_ends_within fuel w
        \<and> follow_me_stop_reply w \<noteq> FollowMe_SUCCESS"
  then show "aborted (main fuel w)
        ([AddUdpConnection ConnectionResult_SUCCESS, Arm Action_SUCCESS, Takeoff Action_SUCCESS,
          FollowMeStart FollowMe_SUCCESS]
         @ map SetTargetLocation (map target_of (delivered w 0 fuel))
         @ [FollowMeStop (follow_me_stop_reply w)])
        ''Failed to stop FollowMe mode'' (follow_me_result_str w (follow_me_stop_reply w))"
    using stop_failure_aborts by blast
next
  assume "reaches_following fuel w \<and> feed_ends_within fuel w
        \<and> follow_me_stop_reply w = FollowMe_SUCCESS \<and> land_reply w \<noteq> Action_SUCCESS"
  then show "aborted (main fuel w)
        ([AddUdpConnection ConnectionResult_SUCCESS, Arm Action_SUCCESS, Takeoff Action_SUCCESS,
          FollowMeStart FollowMe_SUCCESS]
         @ map SetTargetLocation (map target_of (delivered w 0 fuel))
         @ [FollowMeStop FollowMe_SUCCESS, Land (land_reply w)])
        ''Landing failed'' (action_result_str w (land_reply w))"
    using land_failure_aborts by blast
qed

theorem failure_aborts_witness:
  "aborted (main 3 (nominal_world\<lparr>add_udp_connection_reply := ConnectionResult_other 1\<rparr>))
     [AddUdpConnection (ConnectionResult_other 1)] ''Connection failed'' ''reason''
   \<and> aborted (main 3 (nominal_world\<lparr>arm_reply := Action_other 1\<rparr>))
     [AddUdpConnection ConnectionResult_SUCCESS, Arm (Action_other 1)]
     ''Arming failed'' ''reason''
   \<and> aborted (main 3 (nominal_world\<lparr>takeoff_reply := Action_other 1\<rparr>))
     [AddUdpConnection ConnectionResult_SUCCESS, Arm Action_SUCCESS, Takeoff (Action_other 1)]
     ''Takeoff failed'' ''reason''
   \<and> aborted (main 3 (nominal_world\<lparr>follow_me_start_reply := FollowMe_other 1\<rparr>))
     [AddUdpConnection ConnectionResult_SUCCESS, Arm Action_SUCCESS, Takeoff Action_SUCCESS,
      FollowMeStart (FollowMe_other 1)]
     ''Failed to start FollowMe mode'' ''reason''
   \<and> aborted (main 3 (nominal_world\<lparr>follow_me_stop_reply := FollowMe_other 1\<rparr>))
     [AddUdpConnection ConnectionResult_SUCCESS, Arm Action_SUCCESS, Takeoff Action_SUCCESS,
      FollowMeStart FollowMe_SUCCESS, SetTargetLocation (target_of (47.0, 8.5)),
      SetTargetLocation (target_of (47.001, 8.501)), FollowMeStop (FollowMe_other 1)]
     ''Failed to stop FollowMe mode'' ''reason''
   \<and> aborted (main 3 (nominal_world\<lparr>land_reply := Action_other 1\<rparr>))
     [AddUdpConnection ConnectionResult_SUCCESS, Arm Action_SUCCESS, Takeoff Action_SUCCESS,
      FollowMeStart FollowMe_SUCCESS, SetTargetLocation (target_of (47.0, 8.5)),
      SetTargetLocation (target_of (47.001, 8.501)), FollowMeStop FollowMe_SUCCESS,
      Land (Action_other 1)]
     ''Landing failed'' ''reason''"
proof -
  let ?w1 = "nominal_world\<lparr>add_udp_connection_reply := ConnectionResult_other 1\<rparr>"
  let ?w2 = "nominal_world\<lparr>arm_reply := Action_other 1\<rparr>"
  let ?w3 = "nominal_world\<lparr>takeoff_reply := Action_other 1\<rparr>"
  let ?w4 = "nominal_world\<lparr>follow_me_start_reply := FollowMe_other 1\<rparr>"
  let ?w5 = "nominal_world\<lparr>follow_me_stop_reply := FollowMe_other 1\<rparr>"
  let ?w6 = "nominal_world\<lparr>land_reply := Action_other 1\<rparr>"
  have str: "connection_result_str nominal_world (ConnectionResult_other 1) = ''reason''"
    "action_result_str nominal_world (Action_other 1) = ''reason''"
    "follow_me_result_str nominal_world (FollowMe_other 1) = ''reason''"
    by (simp_all add: nominal_world_def)
  have h1: "add_udp_connection_reply ?w1 \<noteq> ConnectionResult_SUCCESS" by simp
  have h2: "add_udp_connection_reply ?w2 = ConnectionResult_SUCCESS \<and> ready_within 3 ?w2
        \<and> arm_reply ?w2 \<noteq> Action_SUCCESS" by code_simp
  have h3: "add_udp_connection_reply ?w3 = ConnectionResult_SUCCESS \<and> ready_within 3 ?w3
        \<and> arm_reply ?w3 = Action_SUCCESS \<and> takeoff_reply ?w3 \<noteq> Action_SUCCESS" by code_simp
  have h4: "add_udp_connection_reply ?w4 = ConnectionResult_SUCCESS \<and> ready_within 3 ?w4
        \<and> arm_reply ?w4 = Action_SUCCESS \<and> takeoff_reply ?w4 = Action_SUCCESS
        \<and> follow_me_start_reply ?w4 \<noteq> FollowMe_SUCCESS" by code_simp
  have h5: "reaches_following 3 ?w5 \<and> feed_ends_within 3 ?w5
        \<and> follow_me_stop_reply ?w5 \<noteq> FollowMe_SUCCESS" by code_simp
  have h6: "reaches_following 3 ?w6 \<and> feed_ends_within 3 ?w6
        \<and> follow_me_stop_reply ?w6 = FollowMe_SUCCESS \<and> land_reply ?w6 \<noteq> Action_SUCCESS"
    by code_simp
  have d5: "delivered ?w5 0 3 = [(47.0, 8.5), (47.001, 8.501)]" by code_simp
  have d6: "delivered ?w6 0 3 = [(47.0, 8.5), (47.001, 8.501)]" by code_simp
  from failure_aborts [of ?w1 3] h1 str have c1:
    "aborted (main 3 ?w1) [AddUdpConnection (ConnectionResult_other 1)]
       ''Connection failed'' ''reason''" by simp
  from failure_aborts [of ?w2 3] h2 str have c2:
    "aborted (main 3 ?w2) [AddUdpConnection ConnectionResult_SUCCESS, Arm (Action_other 1)]
       ''Arming failed'' ''reason''" by simp
  from failure_aborts [of ?w3 3] h3 str have c3:
    "aborted (main 3 ?w3)
       [AddUdpConnection ConnectionResult_SUCCESS, Arm Action_SUCCESS, Takeoff (Action_other 1)]
       ''Takeoff failed'' ''reason''" by simp
  from failure_aborts [of ?w4 3] h4 str have c4:
    "aborted (main 3 ?w4)
       [AddUdpConnection ConnectionResult_SUCCESS, Arm Action_SUCCESS, Takeoff Action_SUCCESS,
        FollowMeStart (FollowMe_other 1)]
       ''Failed to start FollowMe mode'' ''reason''" by simp
  from failure_aborts [of ?w5 3] h5 d5 str have c5:
    "aborted (main 3 ?w5)
       [AddUdpConnection ConnectionResult_SUCCESS, Arm Action_SUCCESS, Takeoff Action_SUCCESS,
        FollowMeStart FollowMe_SUCCESS, SetTargetLocation (target_of (47.0, 8.5)),
        SetTargetLocation (target_of (47.001, 8.501)), FollowMeStop (FollowMe_other 1)]
       ''Failed to stop FollowMe mode'' ''reason''" by simp
  from failure_aborts [of ?w6 3] h6 d6 str have c6:
    "aborted (main 3 ?w6)
       [AddUdpConnection ConnectionResult_SUCCESS, Arm Action_SUCCESS, Takeoff Action_SUCCESS,
        FollowMeStart FollowMe_SUCCESS, SetTargetLocation (target_of (47.0, 8.5)),
        SetTargetLocation (target_of (47.001, 8.501)), FollowMeStop FollowMe_SUCCESS,
        Land (Action_other 1)]
       ''Landing failed'' ''reason''" by simp
  from c1 c2 c3 c4 c5 c6 show ?thesis by blast
qed

text \<open>
  What the monitor of the phase Following refuses: a target location before
  \<^verbatim>\<open>start()\<close>, after a \<^verbatim>\<open>start()\<close> that failed, and after \<^verbatim>\<open>stop()\<close>.
\<close>

lemma following_step_refuses:
  "\<not> accepts following_step False [SetTargetLocation loc]"
  "\<not> accepts following_step False [FollowMeStart (FollowMe_other n), SetTargetLocation loc]"
  "\<not> accepts following_step False
       [FollowMeStart FollowMe_SUCCESS, SetTargetLocation loc, FollowMeStop r, SetTargetLocation loc]"
  by simp_all

text \<open>
  C3. No target location is sent while the phase is not Following: in every
  run of the program, cut off at any point by the fuel or not, every
  \<^verbatim>\<open>set_target_location\<close> comes after a \<^verbatim>\<open>start()\<close> that returned \<^verbatim>\<open>SUCCESS\<close> and
  before \<^verbatim>\<open>stop()\<close> is called.
\<close>

theorem forwarding_window:
  "accepts following_step False (trace (snd (main fuel w)))"
  unfolding main_def Let_def exit_defs telemetry_updates_eq
  by (auto split: sum.splits dest!: loopD
      simp: extends_def relays_def init_def monitor_append accepts_append following_simps
        telemetry_events_observer)

text \<open>
  C4. The nominal scenario: the connection is set up, the vehicle becomes ready,
  arming, take-off and the start of follow-me succeed, the provider hands out
  (47.0, 8.5), then (47.001, 8.501), then stops, and, the scenario being the
  nominal one, \<^verbatim>\<open>stop()\<close> and \<^verbatim>\<open>land()\<close> succeed as well. Then the commands
  sent are exactly: the connection, arm, take-off, start, two target locations
  with these coordinates and zero altitude and velocities, stop, land; and
  the process exits with status 0.
\<close>

theorem nominal_scenario:
  assumes "reaches_following fuel w"
    and "location_updates w 0 = Some (47.0, 8.5)"
    and "location_updates w 1 = Some (47.001, 8.501)"
    and "location_updates w 2 = None"
    and "2 < fuel"
    and "follow_me_stop_reply w = FollowMe_SUCCESS"
    and "land_reply w = Action_SUCCESS"
  shows "vehicle_commands (trace (snd (main fuel w))) =
          [AddUdpConnection ConnectionResult_SUCCESS, Arm Action_SUCCESS, Takeoff Action_SUCCESS,
           FollowMeStart FollowMe_SUCCESS,
           SetTargetLocation \<lparr>latitude_deg = 47.0, longitude_deg = 8.5, altitude_m = 0,
              velocity_north = 0, velocity_east = 0, velocity_down = 0\<rparr>,
           SetTargetLocation \<lparr>latitude_deg = 47.001, longitude_deg = 8.501, altitude_m = 0,
              velocity_north = 0, velocity_east = 0, velocity_down = 0\<rparr>,
           FollowMeStop FollowMe_SUCCESS, Land Action_SUCCESS]
     \<and> fst (main fuel w) = Exit 0"
proof -
  from assms(5) obtain n where fuel: "fuel = Suc (Suc (Suc n))"
    using three_rounds by blast
  have two: "delivered w 0 fuel = [(47.0, 8.5), (47.001, 8.501)]"
    using assms(2,3,4) by (simp add: fuel numeral_2_eq_2)
  have ends: "\<not> (\<forall>j<fuel. location_updates w (0 + j) \<noteq> None)"
    using assms(4,5) by auto
  from complete_run [OF assms(1) ends assms(6,7)] show ?thesis
    by (simp add: case_prod_beta two target_of_def)
qed

theorem nominal_scenario_witness:
  "vehicle_commands (trace (snd (main 3 nominal_world))) =
          [AddUdpConnection ConnectionResult_SUCCESS, Arm Action_SUCCESS, Takeoff Action_SUCCESS,
           FollowMeStart FollowMe_SUCCESS,
           SetTargetLocation \<lparr>latitude_deg = 47.0, longitude_deg = 8.5, altitude_m = 0,
              velocity_north = 0, velocity_east = 0, velocity_down = 0\<rparr>,
           SetTargetLocation \<lparr>latitude_deg = 47.001, longitude_deg = 8.501, altitude_m = 0,
              velocity_north = 0, velocity_east = 0, velocity_down = 0\<rparr>,
           FollowMeStop FollowMe_SUCCESS, Land Action_SUCCESS]
     \<and> fst (main 3 nominal_world) = Exit 0"
proof -
  have 1: "reaches_following 3 nominal_world" by code_simp
  have 2: "location_updates nominal_world 0 = Some (47.0, 8.5)" by (simp add: nominal_world_def)
  have 3: "location_updates nominal_world 1 = Some (47.001, 8.501)"
    by (simp add: nominal_world_def)
  have 4: "location_updates nominal_world 2 = None" by (simp add: nominal_world_def)
  have 5: "(2::nat) < 3" by simp
  have 6: "follow_me_stop_reply nominal_world = FollowMe_SUCCESS" by (simp add: nominal_world_def)
  have 7: "land_reply nominal_world = Action_SUCCESS" by (simp add: nominal_world_def)
  show ?thesis by (rule nominal_scenario [OF 1 2 3 4 5 6 7])
qed

text \<open>
  What the monitor of the calls in flight refuses, and what it counts: a second
  call before the first has returned, a return without a call; one call in
  flight after a call with no return, none after two calls each with its return.
\<close>

lemma in_flight_refuses:
  "monitor in_flight_step 0 [SetTargetLocation a, SetTargetLocation b] = None"
  "monitor in_flight_step 0 [SetTargetLocationReturn] = None"
  "monitor in_flight_step 0 [SetTargetLocation a] = Some 1"
  "monitor in_flight_step 0
     [SetTargetLocation a, SetTargetLocationReturn, SetTargetLocation b, SetTargetLocationReturn]
     = Some 0"
  by simp_all



text \<open>
  C6, as the spec states it, fails. The object that holds the subscription, the
  \<^verbatim>\<open>FakeLocationProvider\<close> made by \<^verbatim>\<open>new\<close> at line 75, is not released when the
  phase Following is left: it is still there when the process exits with
  status 0 after landing, and when the process exits because \<^verbatim>\<open>stop()\<close> failed.
\<close>

theorem session_not_released:
  "fst (main 3 nominal_world) = Exit 0
   \<and> \<not> session_released (snd (main 3 nominal_world))
   \<and> fst (main 3 (nominal_world\<lparr>follow_me_stop_reply := FollowMe_other 1\<rparr>)) = Exit EXIT_FAILURE
   \<and> \<not> session_released (snd (main 3 (nominal_world\<lparr>follow_me_stop_reply := FollowMe_other 1\<rparr>)))"
  by code_simp

text \<open>
  C6, amended. The provider is made when the run enters the phase Following,
  after \<^verbatim>\<open>start()\<close> has succeeded, and not before; the program has no statement
  that releases it, so it stays allocated in every later phase and at every
  exit, normal or not. Wherever a run stops, there is one provider if the run
  has reached the phase Following, and none if it has not.
\<close>

theorem provider_never_released:
  "location_providers (snd (main fuel w)) = (if reaches_following fuel w then 1 else 0)"
proof -
  have "case main fuel w of (h, s) \<Rightarrow>
          location_providers s = (if reaches_following fuel w then 1 else 0)"
    unfolding main_def Let_def exit_defs telemetry_updates_eq reaches_following_def
      ready_within_def
    by (auto split: sum.splits if_splits dest!: loopD'
        simp: extends_def relays_def init_def)
  then show ?thesis by (simp add: case_prod_beta)
qed

theorem provider_never_released_witness:
  "location_providers (snd (main 3 nominal_world)) = 1
   \<and> location_providers (snd (main 3 (nominal_world\<lparr>land_reply := Action_other 1\<rparr>))) = 1
   \<and> location_providers (snd (main 3 (nominal_world\<lparr>arm_reply := Action_other 1\<rparr>))) = 0"
proof -
  have 1: "reaches_following 3 nominal_world" by code_simp
  have 2: "reaches_following 3 (nominal_world\<lparr>land_reply := Action_other 1\<rparr>)" by code_simp
  have 3: "\<not> reaches_following 3 (nominal_world\<lparr>arm_reply := Action_other 1\<rparr>)" by code_simp
  from provider_never_released [of 3 nominal_world]
    provider_never_released [of 3 "nominal_world\<lparr>land_reply := Action_other 1\<rparr>"]
    provider_never_released [of 3 "nominal_world\<lparr>arm_reply := Action_other 1\<rparr>"] 1 2 3
  show ?thesis by simp
qed


text \<open>
  What the two monitors of the amended claim refuse. The monitor of the event
  loop: \<^verbatim>\<open>io.run()\<close> or a target location outside the phase Following, the phase
  left without the loop, another statement of the main thread between
  \<^verbatim>\<open>start()\<close> and the loop, \<^verbatim>\<open>stop()\<close> while the loop runs, a target location after
  the loop has returned, a second loop; and a run that has entered the phase
  and not the loop leaves it in the state \<open>Entered\<close>. The monitor of the
  flight-mode callback: a registration before \<^verbatim>\<open>arm()\<close> has succeeded,
  \<^verbatim>\<open>takeoff()\<close> before the registration, the callback before the registration.
\<close>

lemma drive_step_refuses:
  "\<not> accepts drive_step Outside [IoRun]"
  "\<not> accepts drive_step Outside [SetTargetLocation loc]"
  "\<not> accepts drive_step Outside [FollowMeStart FollowMe_SUCCESS, FollowMeStop r]"
  "\<not> accepts drive_step Outside [FollowMeStart FollowMe_SUCCESS, SleepFor 5]"
  "\<not> accepts drive_step Outside [FollowMeStart FollowMe_SUCCESS, IoRun, FollowMeStop r]"
  "\<not> accepts drive_step Outside
       [FollowMeStart FollowMe_SUCCESS, IoRun, IoRunReturn, SetTargetLocation loc]"
  "\<not> accepts drive_step Outside
       [FollowMeStart FollowMe_SUCCESS, IoRun, IoRunReturn, FollowMeStop r, IoRun]"
  "monitor drive_step Outside [FollowMeStart FollowMe_SUCCESS] = Some Entered"
  by simp_all

lemma observer_step_refuses:
  "\<not> accepts observer_step (False, False) [FlightModeAsync]"
  "\<not> accepts observer_step (False, False) [Arm Action_SUCCESS, Takeoff r]"
  "\<not> accepts observer_step (False, False) [Arm Action_SUCCESS, GetLastLocation loc]"
  "\<not> accepts observer_step (False, False) [Arm Action_SUCCESS, CoutFlightMode m lat lon]"
  by simp_all



text \<open>
  C8. A vehicle that never reports connected, or never reports healthy, keeps
  the program in the poll for ever. Whatever the number \<open>fuel\<close> of rounds the
  run is given, after them the program is still in the loop: it has not
  exited, it has written nothing to \<^verbatim>\<open>std::cerr\<close>, and each of the \<open>fuel\<close> rounds
  was a call of the predicate that returned false, a line on \<^verbatim>\<open>std::cout\<close> and
  a sleep of one second. (For the health poll: after the connection was seen
  at the poll number \<open>n\<close>.)
\<close>

theorem readiness_polls_block:
  "(add_udp_connection_reply w = ConnectionResult_SUCCESS \<and> (\<forall>k. \<not> is_connected_reply w k) \<longrightarrow>
      main fuel w =
        (OutOfFuel,
         emit (AddUdpConnection ConnectionResult_SUCCESS # connect_polls fuel) (init w)))
   \<and> (add_udp_connection_reply w = ConnectionResult_SUCCESS
        \<and> (\<forall>j<n. \<not> is_connected_reply w j) \<and> is_connected_reply w n \<and> n < fuel
        \<and> (\<forall>k. \<not> health_all_ok_reply w k) \<longrightarrow>
      main fuel w =
        (OutOfFuel,
         emit (AddUdpConnection ConnectionResult_SUCCESS # connect_polls n
               @ [IsConnected True] @ health_polls fuel) (init w)))"
proof (intro conjI impI)
  assume a: "add_udp_connection_reply w = ConnectionResult_SUCCESS \<and> (\<forall>k. \<not> is_connected_reply w k)"
  then have "\<forall>j<fuel. \<not> is_connected_reply w (0 + j)" by simp
  from wait_connected_blocked [OF this] a
  show "main fuel w =
        (OutOfFuel,
         emit (AddUdpConnection ConnectionResult_SUCCESS # connect_polls fuel) (init w))"
    by (simp add: main_def Let_def connection_error_exit_def emit_emit)
next
  assume a: "add_udp_connection_reply w = ConnectionResult_SUCCESS
        \<and> (\<forall>j<n. \<not> is_connected_reply w j) \<and> is_connected_reply w n \<and> n < fuel
        \<and> (\<forall>k. \<not> health_all_ok_reply w k)"
  then have 1: "\<forall>j<n. \<not> is_connected_reply w (0 + j)" and 2: "is_connected_reply w (0 + n)"
    and 3: "n < fuel" and 4: "\<forall>j<fuel. \<not> health_all_ok_reply w (0 + j)"
    by simp_all
  from wait_connected_found [OF 1 2 3] wait_health_all_ok_blocked [OF 4] a
  show "main fuel w =
        (OutOfFuel,
         emit (AddUdpConnection ConnectionResult_SUCCESS # connect_polls n
               @ [IsConnected True] @ health_polls fuel) (init w))"
    by (simp add: main_def Let_def connection_error_exit_def emit_emit)
qed



theorem readiness_polls_block_witness:
  "main 4 never_connected_world =
     (OutOfFuel,
      emit (AddUdpConnection ConnectionResult_SUCCESS # connect_polls 4)
        (init never_connected_world))
   \<and> main 4 never_healthy_world =
     (OutOfFuel,
      emit (AddUdpConnection ConnectionResult_SUCCESS # connect_polls 1
            @ [IsConnected True] @ health_polls 4) (init never_healthy_world))"
proof (rule conjI)
  have h1: "add_udp_connection_reply never_connected_world = ConnectionResult_SUCCESS
      \<and> (\<forall>k. \<not> is_connected_reply never_connected_world k)"
    by (simp add: never_connected_world_def nominal_world_def)
  show "main 4 never_connected_world =
     (OutOfFuel,
      emit (AddUdpConnection ConnectionResult_SUCCESS # connect_polls 4)
        (init never_connected_world))"
    by (rule readiness_polls_block [of never_connected_world 4 1, THEN conjunct1, THEN mp, OF h1])
next
  have h2: "add_udp_connection_reply never_healthy_world = ConnectionResult_SUCCESS
      \<and> (\<forall>j<1. \<not> is_connected_reply never_healthy_world j)
      \<and> is_connected_reply never_healthy_world 1 \<and> (1::nat) < 4
      \<and> (\<forall>k. \<not> health_all_ok_reply never_healthy_world k)"
    by (simp add: never_healthy_world_def nominal_world_def)
  show "main 4 never_healthy_world =
     (OutOfFuel,
      emit (AddUdpConnection ConnectionResult_SUCCESS # connect_polls 1
            @ [IsConnected True] @ health_polls 4) (init never_healthy_world))"
    by (rule readiness_polls_block [of never_healthy_world 4 1, THEN conjunct2, THEN mp, OF h2])
qed

text \<open>
  C9. The program has no operation that deactivates the relay. The relay is
  the callback of lines 75 to 77; it is handed to the provider once, and
  \<^verbatim>\<open>main\<close> never takes it back, so there is no second call whose effect could be
  compared with the first. Nothing is stated about C9 here.
\<close>

text \<open>
  C10. A provider that stops before its first sample: no target location is
  sent; \<^verbatim>\<open>stop()\<close> is called, then, if it succeeded, \<^verbatim>\<open>land()\<close>; and the process
  exits with status 0 if both succeeded (with \<^verbatim>\<open>EXIT_FAILURE\<close> if not).
\<close>

theorem empty_feed:
  assumes "reaches_following fuel w" and "location_updates w 0 = None"
  shows "forwarded (trace (snd (main fuel w))) = []
     \<and> vehicle_commands (trace (snd (main fuel w))) =
         [AddUdpConnection ConnectionResult_SUCCESS, Arm Action_SUCCESS, Takeoff Action_SUCCESS,
          FollowMeStart FollowMe_SUCCESS, FollowMeStop (follow_me_stop_reply w)]
         @ (if follow_me_stop_reply w = FollowMe_SUCCESS then [Land (land_reply w)] else [])
     \<and> fst (main fuel w) =
         (if follow_me_stop_reply w = FollowMe_SUCCESS \<and> land_reply w = Action_SUCCESS
          then Exit 0 else Exit EXIT_FAILURE)"
proof -
  from assms(1) have fuel: "0 < fuel"
    by (cases fuel) (auto simp: reaches_following_def ready_within_def)
  then have none: "delivered w 0 fuel = []" using assms(2) by (cases fuel) simp_all
  have ends: "\<not> (\<forall>j<fuel. location_updates w (0 + j) \<noteq> None)"
    using fuel assms(2) by auto
  have "case main fuel w of (h, s) \<Rightarrow> forwarded (trace s) = []
     \<and> vehicle_commands (trace s) =
         [AddUdpConnection ConnectionResult_SUCCESS, Arm Action_SUCCESS, Takeoff Action_SUCCESS,
          FollowMeStart FollowMe_SUCCESS, FollowMeStop (follow_me_stop_reply w)]
         @ (if follow_me_stop_reply w = FollowMe_SUCCESS then [Land (land_reply w)] else [])
     \<and> h =
         (if follow_me_stop_reply w = FollowMe_SUCCESS \<and> land_reply w = Action_SUCCESS
          then Exit 0 else Exit EXIT_FAILURE)"
    using assms(1) none ends
    unfolding main_def Let_def exit_defs telemetry_updates_eq reaches_following_def
      ready_within_def vehicle_commands_def
    by (auto split: sum.splits if_splits dest!: loopD'
        simp: extends_def relays_def init_def projection_simps)
  then show ?thesis by (simp add: case_prod_beta)
qed

theorem empty_feed_witness:
  "forwarded (trace (snd (main 3 empty_feed_world))) = []
   \<and> vehicle_commands (trace (snd (main 3 empty_feed_world))) =
         [AddUdpConnection ConnectionResult_SUCCESS, Arm Action_SUCCESS, Takeoff Action_SUCCESS,
          FollowMeStart FollowMe_SUCCESS, FollowMeStop FollowMe_SUCCESS, Land Action_SUCCESS]
   \<and> fst (main 3 empty_feed_world) = Exit 0"
proof -
  have 1: "reaches_following 3 empty_feed_world" by code_simp
  have 2: "location_updates empty_feed_world 0 = None" by (simp add: empty_feed_world_def)
  have 3: "follow_me_stop_reply empty_feed_world = FollowMe_SUCCESS"
    "land_reply empty_feed_world = Action_SUCCESS"
    by (simp_all add: empty_feed_world_def nominal_world_def)
  from empty_feed [OF 1 2] 3 show ?thesis by simp
qed

end
